theory Spec2Isabelle
  imports Complex_Main
begin

section \<open>Lattice covering of Doppler spaces: the data model\<close>

text \<open>
  The development follows the C module for optimal lattice covering of Doppler spaces
  (\<open>InitDopplerLatticeScan\<close>, \<open>XLALadvanceLatticeIndex\<close> and their helpers).

  Conventions of the embedding.
  \<^item> \<open>REAL8\<close> is modelled by \<open>real\<close>: arithmetic is exact. A division whose divisor is
    zero has no real result (IEEE gives an infinity or a NaN); a function that performs
    one returns \<open>None\<close>, and so does one that calls the GSL error handler (an index out
    of range, vectors of different sizes) or overflows a C \<open>int\<close>. \<open>None\<close> therefore
    reads "the run has left the model", never "the function returned".
  \<^item> C return codes are kept as integers (\<open>0\<close>, \<open>1\<close>, \<open>-1\<close>), because callers test
    them for truth (\<open>if ( isIndexInsideBoundary ( ... ) )\<close>).
  \<^item> A function that returns a code and fills an output argument is modelled by a sum:
    \<open>Inl code\<close> for the error return, \<open>Inr output\<close> for success. No caller reads the
    output argument after an error.
  \<^item> A fixed-size C array (\<open>vect2D_t\<close>, \<open>vect3D_t\<close>) is a tuple; \<open>PulsarSpins\<close>,
    which the code walks with a loop index, is a list of \<open>PULSAR_MAX_SPINS\<close> entries.
  \<^item> Pointer arguments are taken to be non-null and allocation to succeed.
\<close>

subsection \<open>Constants taken from headers\<close>

text \<open>
  The numeric macros \<open>LAL_TWOPI\<close>, \<open>LAL_AU_SI\<close> and \<open>LAL_C_SI\<close> come from a header; the
  functions take them as a parameter and the theorems state what they need of them.
\<close>

record LALConstants =
  LAL_TWOPI :: real
  LAL_AU_SI :: real
  LAL_C_SI :: real


definition PULSAR_MAX_SPINS :: nat where
  \<comment> \<open>Modelled from the spec: the number of entries of the array type \<open>PulsarSpins\<close>,
      whose declaration is in a header ("S is a fixed maximum (here 4)").\<close>
  "PULSAR_MAX_SPINS = 4"

definition EPS_REAL8 :: real where
  "EPS_REAL8 = 1 / 10 ^ 10"

subsection \<open>Internal types\<close>

datatype hemisphere_t = HEMI_BOTH | HEMI_NORTH | HEMI_SOUTH

datatype scan_state_t = STATE_IDLE | STATE_READY | STATE_FINISHED

type_synonym vect2D_t = "real \<times> real"
type_synonym vect3D_t = "real \<times> real \<times> real"
type_synonym vect2Dlist_t = "vect2D_t list"
type_synonym vect3Dlist_t = "vect3D_t list"
type_synonym PulsarSpins = "real list"
type_synonym gsl_vector = "real list"
type_synonym gsl_vector_int = "int list"
type_synonym gsl_matrix = "real list list"

record dopplerParams_t =
  vn :: vect3D_t
  fkdot :: PulsarSpins

record PulsarSpinRange =
  refTime :: int
  range_fkdot :: PulsarSpins
  fkdotBand :: PulsarSpins

record dopplerBoundary_t =
  skyRegion :: vect2Dlist_t
  hemisphere :: hemisphere_t
  fkRange :: PulsarSpinRange

record DopplerLatticeScan =
  state :: scan_state_t
  Tspan :: real
  dimSearch :: nat
  boundary :: dopplerBoundary_t
  latticeOrigin :: gsl_vector
  latticeGenerator :: gsl_matrix
  index :: gsl_vector_int

definition vx :: "vect3D_t \<Rightarrow> real" where "vx v = fst v"
definition vy :: "vect3D_t \<Rightarrow> real" where "vy v = fst (snd v)"
definition vz :: "vect3D_t \<Rightarrow> real" where "vz v = snd (snd v)"

definition VECT_HEMI :: "vect3D_t \<Rightarrow> hemisphere_t" where
  "VECT_HEMI x = (if vz x < 0 then HEMI_SOUTH else if vz x > 0 then HEMI_NORTH else HEMI_BOTH)"


subsection \<open>The approximate comparison of the GSL\<close>

text \<open>
  \<open>gsl_fcmp\<close> belongs to the GNU Scientific Library. Its algorithm (Knuth's approximate
  comparison) is: take the binary exponent \<open>e\<close> of the argument of larger magnitude, as
  \<open>frexp\<close> gives it (\<open>2 ^ (e - 1) \<le> |x| < 2 ^ e\<close>, and \<open>0\<close> for \<open>x = 0\<close>), form
  \<open>delta = epsilon * 2 ^ e\<close>, and compare the difference of the arguments with
  \<open>delta\<close> and \<open>- delta\<close>.
\<close>

definition frexp_exponent :: "real \<Rightarrow> int" where
  "frexp_exponent x = (if x = 0 then 0 else \<lfloor>log 2 \<bar>x\<bar>\<rfloor> + 1)"

definition fcmp_delta :: "real \<Rightarrow> real \<Rightarrow> real \<Rightarrow> real" where
  "fcmp_delta x1 x2 epsilon =
     epsilon * 2 powr real_of_int (frexp_exponent (if \<bar>x1\<bar> > \<bar>x2\<bar> then x1 else x2))"

definition gsl_fcmp :: "real \<Rightarrow> real \<Rightarrow> real \<Rightarrow> int" where
  "gsl_fcmp x1 x2 epsilon =
     (let delta = fcmp_delta x1 x2 epsilon;
          difference = x1 - x2
      in if difference > delta then 1
         else if difference < - delta then - 1
         else 0)"

subsection \<open>Point in polygon\<close>

definition polygon_edge :: "vect2D_t \<Rightarrow> vect2Dlist_t \<Rightarrow> nat \<Rightarrow> nat \<times> nat \<Rightarrow> nat \<times> nat" where
  \<comment> \<open>One pass through the body of the loop over the sides of the polygon.\<close>
  "polygon_edge point polygon i cnt =
     (let N = length polygon;
          px = fst point; py = snd point;
          v1x = fst (polygon ! i); v1y = snd (polygon ! i);
          v2x = fst (polygon ! ((i + 1) mod N)); v2y = snd (polygon ! ((i + 1) mod N));
          insideLeft = fst cnt; insideRight = snd cnt
      in if py < min v1y v2y \<or> py \<ge> max v1y v2y \<or> v1y = v2y then cnt
         else
           let xinter = v1x + (py - v1y) * (v2x - v1x) / (v2y - v1y)
           in ((if xinter > px then insideLeft + 1 else insideLeft),
               (if xinter < px then insideRight + 1 else insideRight)))"

definition vect2DInPolygon :: "vect2D_t \<Rightarrow> vect2Dlist_t \<Rightarrow> int" where
  "vect2DInPolygon point polygon =
     (let N = length polygon;
          px = fst point; py = snd point
      in if N = 1 then
           (let eps = 1 / 10 ^ 10;
                diffx = gsl_fcmp (fst (polygon ! 0)) px eps;
                diffy = gsl_fcmp (snd (polygon ! 0)) py eps
            in if diffx = 0 \<and> diffy = 0 then 1 else 0)
         else if N < 3 then - 1
         else
           (let cnt = fold (polygon_edge point polygon) [0..<N] (0, 0)
            in if fst cnt mod 2 = 1 \<or> snd cnt mod 2 = 1 then 1 else 0))"

subsection \<open>The boundary test\<close>

definition spin_outside :: "dopplerParams_t \<Rightarrow> dopplerBoundary_t \<Rightarrow> nat \<Rightarrow> bool" where
  \<comment> \<open>The condition of the \<open>if\<close> in the loop over the spins.\<close>
  "spin_outside doppler bnd s =
     (let fkdotMax = range_fkdot (fkRange bnd) ! s + fkdotBand (fkRange bnd) ! s;
          fkdotMin = range_fkdot (fkRange bnd) ! s
      in gsl_fcmp (fkdot doppler ! s) fkdotMax EPS_REAL8 > 0 \<or>
         gsl_fcmp (fkdot doppler ! s) fkdotMin EPS_REAL8 < 0)"

definition isDopplerInsideBoundary :: "dopplerParams_t \<Rightarrow> dopplerBoundary_t \<Rightarrow> int" where
  "isDopplerInsideBoundary doppler bnd =
     (let numSpins = PULSAR_MAX_SPINS;
          skyPoint = (vx (vn doppler), vy (vn doppler));
          this_hemi = VECT_HEMI (vn doppler);
          insideSky = vect2DInPolygon skyPoint (skyRegion bnd)
      in if insideSky < 0 then - 1
         else
           let sameHemi = (if this_hemi \<noteq> hemisphere bnd then False else True);
               insideSpins =
                 fold (\<lambda>s acc. if spin_outside doppler bnd s then (acc \<and> False) else acc)
                   [0..<numSpins] True
           in if insideSky \<noteq> 0 \<and> sameHemi \<and> insideSpins then 1 else 0)"

subsection \<open>Doppler parameters and canonical coordinates\<close>

definition convertSpins2Canonical :: "LALConstants \<Rightarrow> PulsarSpins \<Rightarrow> real \<Rightarrow> PulsarSpins" where
  \<comment> \<open>The loop carries \<open>prefact\<close>; \<open>wk\<close> is the output array, every entry of which is written.\<close>
  "convertSpins2Canonical K fk T =
     (let numSpins = PULSAR_MAX_SPINS
      in fst (fold (\<lambda>s (wk, prefact). (wk[s := prefact * fk ! s], prefact * T))
                [0..<numSpins] (replicate numSpins 0, LAL_TWOPI K * T)))"

definition convertDoppler2Canonical :: "LALConstants \<Rightarrow> dopplerParams_t \<Rightarrow> real \<Rightarrow> gsl_vector" where
  \<comment> \<open>The function returns 0 on every path the model covers; the model returns the vector.\<close>
  "convertDoppler2Canonical K doppler T =
     (let numSpins = PULSAR_MAX_SPINS;
          prefix = (LAL_TWOPI K * LAL_AU_SI K / LAL_C_SI K) * fkdot doppler ! 0;
          kX = - prefix * vx (vn doppler);
          kY = - prefix * vy (vn doppler);
          wk = convertSpins2Canonical K (fkdot doppler) T;
          ret = (replicate (2 + numSpins) 0)[0 := wk ! 0, 1 := kX, 2 := kY]
      in fold (\<lambda>s r. r[2 + s := wk ! s]) [1..<numSpins] ret)"

definition convertCanonical2Doppler ::
  "LALConstants \<Rightarrow> gsl_vector \<Rightarrow> hemisphere_t \<Rightarrow> real \<Rightarrow> (int + dopplerParams_t) option" where
  \<comment> \<open>\<open>numSpins\<close> is a \<open>UINT4\<close>: the subtraction wraps for a vector shorter than 2.
      Reading component 2 of a vector of size 2 calls the GSL error handler.\<close>
  "convertCanonical2Doppler K canonical hemi T =
     (if hemi \<noteq> HEMI_NORTH \<and> hemi \<noteq> HEMI_SOUTH then Some (Inl (- 1))
      else
        let numSpinsMax = PULSAR_MAX_SPINS;
            fk0 = replicate numSpinsMax 0;
            numSpins = nat ((int (length canonical) - 2) mod 2 ^ 32)
        in if numSpins > numSpinsMax then Some (Inl (- 1))
           else
             let prefact = LAL_TWOPI K * T
             in if prefact = 0 then None
                else
                  let fk1 = fk0[0 := canonical ! 0 / prefact];
                      fk = fst (fold (\<lambda>s (fk, prefact).
                                        (fk[s := canonical ! (s + 2) / (prefact * T)], prefact * T))
                                  [1..<numSpins] (fk1, prefact));
                      prefact2 = (LAL_TWOPI K * LAL_AU_SI K / LAL_C_SI K) * fk ! 0
                  in if length canonical < 3 \<or> prefact2 = 0 then None
                     else
                       let n0 = - canonical ! 1 / prefact2;
                           n1 = - canonical ! 2 / prefact2;
                           vn2 = n0 * n0 + n1 * n1
                       in if gsl_fcmp vn2 1 EPS_REAL8 > 0 then Some (Inl (- 1))
                          else
                            let n2 = sqrt \<bar>1 - vn2\<bar>
                            in Some (Inr \<lparr> vn = (n0, n1, if hemi = HEMI_SOUTH then n2 * (- 1) else n2),
                                            fkdot = fk \<rparr>))"

subsection \<open>Lattice index to Doppler parameters\<close>

definition size1 :: "gsl_matrix \<Rightarrow> nat" where
  "size1 m = length m"

definition size2 :: "gsl_matrix \<Rightarrow> nat" where
  \<comment> \<open>A \<open>gsl_matrix\<close> is rectangular: every row has \<open>size2\<close> entries.\<close>
  "size2 m = (case m of [] \<Rightarrow> 0 | r # _ \<Rightarrow> length r)"

definition indexToCanonicalOffset ::
  "gsl_vector option \<Rightarrow> gsl_vector_int \<Rightarrow> gsl_matrix \<Rightarrow> int + gsl_vector" where
  \<comment> \<open>The first argument is the output vector when the caller has allocated it.\<close>
  "indexToCanonicalOffset canonicalOffset idx generator =
     (let dimS = length idx
      in if size1 generator \<noteq> dimS \<or> size2 generator \<noteq> dimS then Inl (- 1)
         else if (case canonicalOffset of None \<Rightarrow> False | Some v \<Rightarrow> length v < dimS) then Inl (- 1)
         else
           let out0 = (case canonicalOffset of
                         None \<Rightarrow> replicate dimS 0
                       | Some v \<Rightarrow> replicate (length v) 0)
           in Inr (fold (\<lambda>i out.
                           out[i := fold (\<lambda>j comp. comp + 1 * real_of_int (idx ! j) * (generator ! j ! i))
                                      [0..<dimS] 0])
                     [0..<dimS] out0))"

definition gsl_vector_add :: "gsl_vector \<Rightarrow> gsl_vector \<Rightarrow> gsl_vector option" where
  "gsl_vector_add a b = (if length a \<noteq> length b then None else Some (map2 (+) a b))"

definition XLALindexToDoppler ::
  "LALConstants \<Rightarrow> gsl_vector_int \<Rightarrow> DopplerLatticeScan \<Rightarrow> (int + dopplerParams_t) option" where
  "XLALindexToDoppler K idx scan =
     (let canonical = replicate (length (latticeOrigin scan)) 0
      in case indexToCanonicalOffset (Some canonical) idx (latticeGenerator scan) of
           Inl _ \<Rightarrow> Some (Inl (- 1))
         | Inr canonical1 \<Rightarrow>
             (case gsl_vector_add canonical1 (latticeOrigin scan) of
                None \<Rightarrow> None
              | Some canonical2 \<Rightarrow>
                  (case convertCanonical2Doppler K canonical2 (hemisphere (boundary scan)) (Tspan scan) of
                     None \<Rightarrow> None
                   | Some (Inl _) \<Rightarrow> Some (Inl (- 1))
                   | Some (Inr doppler) \<Rightarrow> Some (Inr doppler))))"

definition isIndexInsideBoundary ::
  "LALConstants \<Rightarrow> gsl_vector_int \<Rightarrow> DopplerLatticeScan \<Rightarrow> int option" where
  "isIndexInsideBoundary K idx scan =
     (if state scan \<noteq> STATE_READY then Some (- 1)
      else case XLALindexToDoppler K idx scan of
             None \<Rightarrow> None
           | Some (Inl _) \<Rightarrow> Some (- 1)
           | Some (Inr doppler) \<Rightarrow> Some (isDopplerInsideBoundary doppler (boundary scan)))"

subsection \<open>Reading and setting the current index\<close>

definition XLALgetCurrentLatticeIndex ::
  "gsl_vector_int option \<Rightarrow> DopplerLatticeScan \<Rightarrow> (int + gsl_vector_int) option" where
  \<comment> \<open>\<open>gsl_vector_int_memcpy\<close> calls the GSL error handler when the sizes differ.\<close>
  "XLALgetCurrentLatticeIndex idx scan =
     (if state scan \<noteq> STATE_READY then Some (Inl (- 1))
      else if (case idx of None \<Rightarrow> False | Some v \<Rightarrow> length v \<noteq> dimSearch scan) then Some (Inl (- 1))
      else if length (index scan) \<noteq> dimSearch scan then None
      else Some (Inr (index scan)))"

definition XLALsetCurrentLatticeIndex ::
  "DopplerLatticeScan \<Rightarrow> gsl_vector_int \<Rightarrow> (int \<times> DopplerLatticeScan) option" where
  "XLALsetCurrentLatticeIndex scan idx =
     (if state scan \<noteq> STATE_READY \<or> length idx \<noteq> dimSearch scan then Some (- 1, scan)
      else if length (index scan) \<noteq> length idx then None
      else Some (0, scan\<lparr> index := idx \<rparr>))"

subsection \<open>The lattice-stepping function\<close>

definition INT_MAX :: int where "INT_MAX = 2 ^ 31 - 1"
definition INT_MIN :: int where "INT_MIN = - (2 ^ 31)"

definition install_index ::
  "DopplerLatticeScan \<Rightarrow> gsl_vector_int \<Rightarrow> nat \<Rightarrow> (int \<times> nat \<times> DopplerLatticeScan) option" where
  \<comment> \<open>The two identical blocks that set the current index and leave the loop.\<close>
  "install_index scan next_index aI =
     (case XLALsetCurrentLatticeIndex scan next_index of
        None \<Rightarrow> None
      | Some (c, scan') \<Rightarrow> Some ((if c \<noteq> 0 then - 1 else 0), aI, scan'))"

text \<open>
  The \<open>do ... while ( aI < dim )\<close> loop, one pass per call. The result is the value of
  \<open>ret\<close>, the value of \<open>aI\<close> and the scan when the loop is left. The body runs before
  the condition is tested: with \<open>dim = 0\<close> the first pass addresses component 0 of an
  empty vector, which calls the GSL error handler. \<open>index0\<close> is the copy of the current
  index that \<open>XLALgetCurrentLatticeIndex\<close> has made; the scan's own index changes only
  through \<open>XLALsetCurrentLatticeIndex\<close>. Adding the step to a component equal to
  \<open>INT_MAX\<close> (or subtracting from \<open>INT_MIN\<close>) overflows.
\<close>

function advance_loop ::
  "LALConstants \<Rightarrow> DopplerLatticeScan \<Rightarrow> nat \<Rightarrow> gsl_vector_int \<Rightarrow> nat
     \<Rightarrow> (int \<times> nat \<times> DopplerLatticeScan) option" where
  "advance_loop K scan dimS index0 aI =
     (if aI \<ge> dimS then None
      else
        let goingUp = (if index0 ! aI < 0 then False else True);
            stepped = index0 ! aI + (if \<not> goingUp then - 1 else 1)
        in if stepped < INT_MIN \<or> stepped > INT_MAX then None
           else
             case isIndexInsideBoundary K (index0[aI := stepped]) scan of
               None \<Rightarrow> None
             | Some r \<Rightarrow>
                 if r \<noteq> 0 then install_index scan (index0[aI := stepped]) aI
                 else if goingUp then
                   (case isIndexInsideBoundary K (index0[aI := - 1]) scan of
                      None \<Rightarrow> None
                    | Some r2 \<Rightarrow>
                        if r2 \<noteq> 0 then install_index scan (index0[aI := - 1]) aI
                        else if aI + 1 < dimS then advance_loop K scan dimS (index0[aI := 0]) (aI + 1)
                        else Some (0, aI + 1, scan))
                 else if aI + 1 < dimS then advance_loop K scan dimS (index0[aI := 0]) (aI + 1)
                 else Some (0, aI + 1, scan))"
  by pat_completeness auto
termination
  by (relation "measure (\<lambda>(K, scan, dimS, index0, aI). dimS - aI)") auto

declare advance_loop.simps [simp del]

definition XLALadvanceLatticeIndex ::
  "LALConstants \<Rightarrow> DopplerLatticeScan \<Rightarrow> (int \<times> DopplerLatticeScan) option" where
  \<comment> \<open>The result is the return value (0 = OK, -1 = error, 1 = no more lattice points)
      with the scan as the call leaves it.\<close>
  "XLALadvanceLatticeIndex K scan =
     (if state scan \<noteq> STATE_READY then Some (- 1, scan)
      else
        let dimS = dimSearch scan
        in case XLALgetCurrentLatticeIndex None scan of
             None \<Rightarrow> None
           | Some (Inl _) \<Rightarrow> Some (- 1, scan)
           | Some (Inr index0) \<Rightarrow>
               (case advance_loop K scan dimS index0 0 of
                  None \<Rightarrow> None
                | Some (ret0, aI, scan') \<Rightarrow>
                    let ret = (if aI = dimS then 1 else ret0)
                    in if ret < 0 then Some (- 1, scan') else Some (ret, scan')))"

subsection \<open>Setting up the search region\<close>

fun hemisphere_loop :: "hemisphere_t \<Rightarrow> vect3Dlist_t \<Rightarrow> hemisphere_t" where
  "hemisphere_loop our_hemi [] = our_hemi"
| "hemisphere_loop our_hemi (thisPoint # rest) =
     (let this_hemi = VECT_HEMI thisPoint;
          our_hemi1 = (if our_hemi = HEMI_BOTH \<and> this_hemi \<noteq> HEMI_BOTH then this_hemi else our_hemi)
      in if this_hemi \<noteq> HEMI_BOTH \<and> this_hemi \<noteq> our_hemi1 then HEMI_BOTH
         else hemisphere_loop our_hemi1 rest)"

definition onWhichHemisphere :: "vect3Dlist_t \<Rightarrow> hemisphere_t" where
  \<comment> \<open>For an empty list the code returns \<open>FALSE\<close>, the integer 0, which is \<open>HEMI_BOTH\<close>.\<close>
  "onWhichHemisphere skypoints =
     (if length skypoints = 0 then HEMI_BOTH else hemisphere_loop HEMI_BOTH skypoints)"

definition findCenterOfMass :: "vect3Dlist_t \<Rightarrow> vect3D_t option" where
  "findCenterOfMass points =
     (let com = fold (\<lambda>p c. (vx c + vx p, vy c + vy p, vz c + vz p)) points (0, 0, 0)
      in if length points = 0 then None
         else
           let norm = 1 / real (length points)
           in Some (vx com * norm, vy com * norm, vz com * norm))"

record DopplerRegion =
  region_refTime :: int
  region_fkdot :: PulsarSpins
  region_fkdotBand :: PulsarSpins

datatype status_code = DOPPLERSCANH_EINPUT | DOPPLERSCANH_EXLAL

function active_spins :: "PulsarSpins \<Rightarrow> nat \<Rightarrow> nat" where
  \<comment> \<open>\<open>while ( (numSpins > 1) && (fkdotBand[numSpins - 1] == 0) ) numSpins --;\<close>\<close>
  "active_spins band numSpins =
     (if numSpins > 1 \<and> band ! (numSpins - 1) = 0 then active_spins band (numSpins - 1)
      else numSpins)"
  by pat_completeness auto
termination
  by (relation "measure (\<lambda>(band, numSpins). numSpins)") auto

declare active_spins.simps [simp del]

definition setupSearchRegion ::
  "LALConstants \<Rightarrow> DopplerLatticeScan \<Rightarrow> vect3Dlist_t \<Rightarrow> DopplerRegion
     \<Rightarrow> (status_code + DopplerLatticeScan) option" where
  \<comment> \<open>\<open>points3D\<close> is the list that \<open>skyRegionString2vect3D\<close> returns for the region's
      string (the parser is a collaborator).\<close>
  "setupSearchRegion K scan points3D searchRegion =
     (let numSpins = PULSAR_MAX_SPINS;
          hemi = onWhichHemisphere points3D
      in if hemi = HEMI_BOTH then Some (Inl DOPPLERSCANH_EINPUT)
         else
           case findCenterOfMass points3D of
             None \<Rightarrow> None
           | Some center \<Rightarrow>
               let midPoint = \<lparr> vn = center,
                                fkdot = map (\<lambda>i. region_fkdot searchRegion ! i
                                                  + (1 / 2) * region_fkdotBand searchRegion ! i)
                                          [0..<numSpins] \<rparr>
               in Some (Inr (scan\<lparr>
                    boundary :=
                      \<lparr> skyRegion = map (\<lambda>p. (vx p, vy p)) points3D,
                        hemisphere = hemi,
                        fkRange = \<lparr> refTime = region_refTime searchRegion,
                                    range_fkdot = region_fkdot searchRegion,
                                    fkdotBand = region_fkdotBand searchRegion \<rparr> \<rparr>,
                    latticeOrigin := convertDoppler2Canonical K midPoint (Tspan scan),
                    dimSearch := 2 + active_spins (region_fkdotBand searchRegion) numSpins \<rparr>)))"

subsection \<open>The outward walk as the specification words it\<close>

text \<open>
  The walk of the specification, over a test \<open>inside\<close> that answers \<open>Some True\<close>,
  \<open>Some False\<close>, or \<open>None\<close> when the transform of the trial index fails:
  at axis \<open>a\<close>, try one step outwards; when going up also try \<open>-1\<close> on this axis;
  otherwise put the axis back to 0 and go to the next one; at \<open>a = D\<close> the walk is
  finished. A failing test stops the walk with an error.
\<close>

datatype walk_result = Advanced gsl_vector_int | Finished | WalkError

function outward_walk ::
  "(gsl_vector_int \<Rightarrow> bool option) \<Rightarrow> nat \<Rightarrow> gsl_vector_int \<Rightarrow> nat \<Rightarrow> walk_result" where
  "outward_walk inside D i a =
     (if a \<ge> D then Finished
      else
        let up = (i ! a \<ge> 0);
            trial = i[a := (if up then i ! a + 1 else i ! a - 1)]
        in case inside trial of
             None \<Rightarrow> WalkError
           | Some True \<Rightarrow> Advanced trial
           | Some False \<Rightarrow>
               (if up then
                  (case inside (i[a := - 1]) of
                     None \<Rightarrow> WalkError
                   | Some True \<Rightarrow> Advanced (i[a := - 1])
                   | Some False \<Rightarrow> outward_walk inside D (i[a := 0]) (a + 1))
                else outward_walk inside D (i[a := 0]) (a + 1)))"
  by pat_completeness auto
termination
  by (relation "measure (\<lambda>(inside, D, i, a). D - a)") auto

declare outward_walk.simps [simp del]

definition inside_test :: "LALConstants \<Rightarrow> DopplerLatticeScan \<Rightarrow> gsl_vector_int \<Rightarrow> bool option" where
  \<comment> \<open>What \<open>isIndexInsideBoundary\<close> reports: TRUE, FALSE, or an error.\<close>
  "inside_test K scan idx =
     (case isIndexInsideBoundary K idx scan of
        None \<Rightarrow> None
      | Some r \<Rightarrow> if r = 1 then Some True else if r = 0 then Some False else None)"

subsection \<open>Notions of the specification\<close>

definition spin_in_widened_interval :: "real \<Rightarrow> real \<Rightarrow> real \<Rightarrow> bool" where
  \<comment> \<open>\<open>f\<close> lies in \<open>[lo, hi]\<close> widened at each end by the tolerance of the comparison
      of \<open>f\<close> with that end.\<close>
  "spin_in_widened_interval f lo hi \<longleftrightarrow>
     lo - fcmp_delta f lo EPS_REAL8 \<le> f \<and> f \<le> hi + fcmp_delta f hi EPS_REAL8"


subsection \<open>Concrete values for the instances\<close>

definition LAL_K :: LALConstants where
  \<comment> \<open>\<open>2 * pi\<close> to sixteen digits, the astronomical unit in metres and the speed of
      light in metres per second.\<close>
  "LAL_K = \<lparr> LAL_TWOPI = 6283185307179586 / 10 ^ 15,
             LAL_AU_SI = 149597870660,
             LAL_C_SI = 299792458 \<rparr>"

definition idle_scan :: "real \<Rightarrow> DopplerLatticeScan" where
  \<comment> \<open>The zeroed structure of \<open>InitDopplerLatticeScan\<close> after \<open>Tspan\<close> has been stored.\<close>
  "idle_scan T =
     \<lparr> state = STATE_IDLE, Tspan = T, dimSearch = 0,
       boundary = \<lparr> skyRegion = [], hemisphere = HEMI_BOTH,
                    fkRange = \<lparr> refTime = 0, range_fkdot = [0, 0, 0, 0], fkdotBand = [0, 0, 0, 0] \<rparr> \<rparr>,
       latticeOrigin = [], latticeGenerator = [], index = [] \<rparr>"

definition point_boundary :: dopplerBoundary_t where
  \<comment> \<open>A single sky point on the northern hemisphere, a single frequency, no spindown.\<close>
  "point_boundary =
     \<lparr> skyRegion = [(3 / 5, 0)], hemisphere = HEMI_NORTH,
       fkRange = \<lparr> refTime = 0, range_fkdot = [100, 0, 0, 0], fkdotBand = [0, 0, 0, 0] \<rparr> \<rparr>"

definition point_doppler :: dopplerParams_t where
  "point_doppler = \<lparr> vn = (3 / 5, 0, 4 / 5), fkdot = [100, 0, 0, 0] \<rparr>"

definition point_scan :: DopplerLatticeScan where
  \<comment> \<open>The scan of that region over a span of \<open>10\<^sup>6\<close> seconds, with unit steps in
      \<open>w\<^sub>0\<close>, \<open>kX\<close> and \<open>kY\<close> as lattice vectors, standing at the origin.\<close>
  "point_scan =
     \<lparr> state = STATE_READY, Tspan = 1000000, dimSearch = 3,
       boundary = point_boundary,
       latticeOrigin = convertDoppler2Canonical LAL_K point_doppler 1000000,
       latticeGenerator = [[1, 0, 0], [0, 1, 0], [0, 0, 1]],
       index = [0, 0, 0] \<rparr>"


definition edge_scan :: DopplerLatticeScan where
  \<comment> \<open>A scan of a small triangle next to the ecliptic equator. The origin is the
      canonical image of the triangle's centre of mass (its third component does not
      enter the canonical vector); the first lattice vector is a step of 3 in \<open>kX\<close>
      towards the rim of the unit disk, about a hundred-thousandth of the disk's
      radius.\<close>
  "edge_scan =
     \<lparr> state = STATE_READY, Tspan = 1000000, dimSearch = 3,
       boundary =
         \<lparr> skyRegion = [(99999 / 100000, - 1 / 1000), (9999995 / 10000000, 0),
                        (99999 / 100000, 1 / 1000)],
           hemisphere = HEMI_NORTH,
           fkRange = \<lparr> refTime = 0, range_fkdot = [100, 0, 0, 0], fkdotBand = [0, 0, 0, 0] \<rparr> \<rparr>,
       latticeOrigin =
         convertDoppler2Canonical LAL_K
           \<lparr> vn = (5999959 / 6000000, 0, 3 / 1000), fkdot = [100, 0, 0, 0] \<rparr> 1000000,
       latticeGenerator = [[0, - 3, 0], [0, 0, 3], [1, 0, 0]],
       index = [0, 0, 0] \<rparr>"


section \<open>Properties\<close>

subsection \<open>The approximate comparison\<close>

text \<open>
  The tolerance \<open>delta\<close> of a comparison lies between \<open>eps\<close> and \<open>2 * eps\<close> times the
  larger magnitude of the two numbers compared; the comparison is decided by the
  difference of the numbers once that difference is outside this band.
\<close>

lemma frexp_exponent_bounds:
  assumes "x \<noteq> 0"
  shows "\<bar>x\<bar> < 2 powr real_of_int (frexp_exponent x)"
    and "2 powr real_of_int (frexp_exponent x) \<le> 2 * \<bar>x\<bar>"
proof -
  have pos: "0 < \<bar>x\<bar>" using assms by simp
  have "log 2 \<bar>x\<bar> < real_of_int (\<lfloor>log 2 \<bar>x\<bar>\<rfloor> + 1)" by linarith
  then show "\<bar>x\<bar> < 2 powr real_of_int (frexp_exponent x)"
    using pos assms by (simp add: frexp_exponent_def less_powr_iff)
  have "real_of_int (\<lfloor>log 2 \<bar>x\<bar>\<rfloor> + 1) \<le> log 2 \<bar>x\<bar> + 1" by linarith
  also have "\<dots> = log 2 (2 * \<bar>x\<bar>)" using pos by (simp add: log_mult)
  finally show "2 powr real_of_int (frexp_exponent x) \<le> 2 * \<bar>x\<bar>"
    using pos assms by (simp add: frexp_exponent_def powr_le_iff)
qed

lemma fcmp_delta_lower:
  assumes "0 \<le> eps"
  shows "eps * max \<bar>x1\<bar> \<bar>x2\<bar> \<le> fcmp_delta x1 x2 eps"
proof -
  define m where "m = (if \<bar>x1\<bar> > \<bar>x2\<bar> then x1 else x2)"
  have mabs: "\<bar>m\<bar> = max \<bar>x1\<bar> \<bar>x2\<bar>" by (simp add: m_def max_def)
  have "\<bar>m\<bar> \<le> 2 powr real_of_int (frexp_exponent m)"
  proof (cases "m = 0")
    case True then show ?thesis by simp
  next
    case False then show ?thesis using frexp_exponent_bounds(1) [of m] by simp
  qed
  then have "eps * \<bar>m\<bar> \<le> eps * 2 powr real_of_int (frexp_exponent m)"
    using assms by (rule mult_left_mono)
  then show ?thesis by (simp add: fcmp_delta_def m_def [symmetric] mabs)
qed

lemma fcmp_delta_upper:
  assumes "0 \<le> eps" and "x1 \<noteq> 0 \<or> x2 \<noteq> 0"
  shows "fcmp_delta x1 x2 eps \<le> 2 * eps * max \<bar>x1\<bar> \<bar>x2\<bar>"
proof -
  define m where "m = (if \<bar>x1\<bar> > \<bar>x2\<bar> then x1 else x2)"
  have mabs: "\<bar>m\<bar> = max \<bar>x1\<bar> \<bar>x2\<bar>" by (simp add: m_def max_def)
  have "m \<noteq> 0" using assms(2) by (auto simp: m_def)
  then have "2 powr real_of_int (frexp_exponent m) \<le> 2 * \<bar>m\<bar>"
    by (rule frexp_exponent_bounds(2))
  then have "eps * 2 powr real_of_int (frexp_exponent m) \<le> eps * (2 * \<bar>m\<bar>)"
    using assms(1) by (rule mult_left_mono)
  then show ?thesis by (simp add: fcmp_delta_def m_def [symmetric] mabs mult.assoc mult.left_commute)
qed

lemma fcmp_delta_nonneg: "0 \<le> eps \<Longrightarrow> 0 \<le> fcmp_delta x1 x2 eps"
  by (simp add: fcmp_delta_def)

lemma fcmp_delta_zero: "fcmp_delta 0 0 eps = eps"
  by (simp add: fcmp_delta_def frexp_exponent_def)

lemma gsl_fcmp_range: "gsl_fcmp x1 x2 eps \<in> {- 1, 0, 1}"
  by (simp add: gsl_fcmp_def Let_def)

lemma gsl_fcmp_eq_0_iff:
  "0 \<le> eps \<Longrightarrow> gsl_fcmp x1 x2 eps = 0 \<longleftrightarrow> \<bar>x1 - x2\<bar> \<le> fcmp_delta x1 x2 eps"
  using fcmp_delta_nonneg [of eps x1 x2] by (auto simp: gsl_fcmp_def Let_def)


lemma gsl_fcmp_neg_iff:
  "0 \<le> eps \<Longrightarrow> gsl_fcmp x1 x2 eps < 0 \<longleftrightarrow> x2 - x1 > fcmp_delta x1 x2 eps"
  using fcmp_delta_nonneg [of eps x1 x2] by (auto simp: gsl_fcmp_def Let_def)



lemma gsl_fcmp_ge: "0 \<le> eps \<Longrightarrow> x2 \<le> x1 \<Longrightarrow> \<not> gsl_fcmp x1 x2 eps < 0"
  using fcmp_delta_nonneg [of eps x1 x2] by (simp add: gsl_fcmp_neg_iff)

lemma gsl_fcmp_close:
  "0 \<le> eps \<Longrightarrow> \<bar>x1 - x2\<bar> \<le> eps * max \<bar>x1\<bar> \<bar>x2\<bar> \<Longrightarrow> gsl_fcmp x1 x2 eps = 0"
  using fcmp_delta_lower [of eps x1 x2] by (simp add: gsl_fcmp_eq_0_iff)

lemma gsl_fcmp_far_pos:
  assumes "0 \<le> eps" and "x1 - x2 > 2 * eps * max \<bar>x1\<bar> \<bar>x2\<bar>"
  shows "gsl_fcmp x1 x2 eps = 1"
proof -
  have "x1 \<noteq> 0 \<or> x2 \<noteq> 0" using assms by auto
  from fcmp_delta_upper [OF assms(1) this] assms(2)
  show ?thesis by (simp add: gsl_fcmp_def Let_def)
qed

lemma gsl_fcmp_far_neg:
  assumes "0 \<le> eps" and "x2 - x1 > 2 * eps * max \<bar>x1\<bar> \<bar>x2\<bar>"
  shows "gsl_fcmp x1 x2 eps = - 1"
proof -
  have "x1 \<noteq> 0 \<or> x2 \<noteq> 0" using assms by auto
  from fcmp_delta_upper [OF assms(1) this] assms(2) fcmp_delta_nonneg [OF assms(1), of x1 x2]
  show ?thesis by (simp add: gsl_fcmp_def Let_def)
qed

lemma gsl_fcmp_far:
  assumes "0 \<le> eps" and "\<bar>x1 - x2\<bar> > 2 * eps * max \<bar>x1\<bar> \<bar>x2\<bar>"
  shows "gsl_fcmp x1 x2 eps \<noteq> 0"
proof -
  have "x1 \<noteq> 0 \<or> x2 \<noteq> 0" using assms by auto
  from fcmp_delta_upper [OF assms(1) this] assms(2)
  show ?thesis by (simp add: gsl_fcmp_eq_0_iff assms(1))
qed

lemmas gsl_fcmp_eval = gsl_fcmp_close gsl_fcmp_far_pos gsl_fcmp_far_neg

lemma vect2DInPolygon_range: "vect2DInPolygon p poly \<in> {- 1, 0, 1}"
  by (simp add: vect2DInPolygon_def Let_def)

lemma vect2DInPolygon_single:
  "vect2DInPolygon (px, py) [(a, b)] =
     (if gsl_fcmp a px (1 / 10 ^ 10) = 0 \<and> gsl_fcmp b py (1 / 10 ^ 10) = 0 then 1 else 0)"
  by (simp add: vect2DInPolygon_def Let_def)

subsection \<open>The polygon of one vertex\<close>



subsection \<open>The boundary test is a conjunction\<close>

lemma insideSpins_fold:
  "fold (\<lambda>s acc. if P s then (acc \<and> False) else acc) xs b \<longleftrightarrow> b \<and> (\<forall>s \<in> set xs. \<not> P s)"
  by (induction xs arbitrary: b) auto


lemma isDopplerInsideBoundary_iff:
  "isDopplerInsideBoundary d b = 1 \<longleftrightarrow>
     vect2DInPolygon (vx (vn d), vy (vn d)) (skyRegion b) = 1 \<and>
     VECT_HEMI (vn d) = hemisphere b \<and>
     (\<forall>s < PULSAR_MAX_SPINS. \<not> spin_outside d b s)"
  using vect2DInPolygon_range [of "(vx (vn d), vy (vn d))" "skyRegion b"]
  by (auto simp: isDopplerInsideBoundary_def Let_def insideSpins_fold)


text \<open>
  The widened interval contains the interval widened by \<open>EPS_REAL8\<close> times the
  magnitude of each end, and is contained in the one widened by twice \<open>EPS_REAL8\<close>
  times the larger magnitude of the spin and that end.
\<close>

lemma fcmp_delta_ge_abs:
  "EPS_REAL8 * \<bar>b\<bar> \<le> fcmp_delta f b EPS_REAL8"
proof -
  have e: "0 \<le> EPS_REAL8" by (simp add: EPS_REAL8_def)
  have "EPS_REAL8 * \<bar>b\<bar> \<le> EPS_REAL8 * max \<bar>f\<bar> \<bar>b\<bar>"
    using e by (intro mult_left_mono) simp_all
  with fcmp_delta_lower [OF e, of f b] show ?thesis by simp
qed

lemma widened_interval_bounds:
  "(lo - EPS_REAL8 * \<bar>lo\<bar> \<le> f \<and> f \<le> hi + EPS_REAL8 * \<bar>hi\<bar> \<longrightarrow> spin_in_widened_interval f lo hi) \<and>
   (spin_in_widened_interval f lo hi \<longrightarrow>
      lo - 2 * EPS_REAL8 * max \<bar>f\<bar> \<bar>lo\<bar> \<le> f \<and> f \<le> hi + 2 * EPS_REAL8 * max \<bar>f\<bar> \<bar>hi\<bar>)"
proof -
  have e: "0 \<le> EPS_REAL8" by (simp add: EPS_REAL8_def)
  have up: "b - f \<le> fcmp_delta f b EPS_REAL8 \<Longrightarrow> b - f \<le> 2 * EPS_REAL8 * max \<bar>f\<bar> \<bar>b\<bar>"
    and dn: "f - b \<le> fcmp_delta f b EPS_REAL8 \<Longrightarrow> f - b \<le> 2 * EPS_REAL8 * max \<bar>f\<bar> \<bar>b\<bar>" for b
  proof -
    show "b - f \<le> fcmp_delta f b EPS_REAL8 \<Longrightarrow> b - f \<le> 2 * EPS_REAL8 * max \<bar>f\<bar> \<bar>b\<bar>"
    proof (cases "f \<noteq> 0 \<or> b \<noteq> 0")
      case True
      from fcmp_delta_upper [OF e True] show "b - f \<le> fcmp_delta f b EPS_REAL8 \<Longrightarrow> ?thesis" by simp
    next
      case False
      then show ?thesis by simp
    qed
    show "f - b \<le> fcmp_delta f b EPS_REAL8 \<Longrightarrow> f - b \<le> 2 * EPS_REAL8 * max \<bar>f\<bar> \<bar>b\<bar>"
    proof (cases "f \<noteq> 0 \<or> b \<noteq> 0")
      case True
      from fcmp_delta_upper [OF e True] show "f - b \<le> fcmp_delta f b EPS_REAL8 \<Longrightarrow> ?thesis" by simp
    next
      case False
      then show ?thesis by simp
    qed
  qed
  show ?thesis
    using fcmp_delta_ge_abs [of lo f] fcmp_delta_ge_abs [of hi f] up [of lo] dn [of hi]
    by (auto simp: spin_in_widened_interval_def)
qed



subsection \<open>Doppler parameters to canonical coordinates\<close>

lemma D2C_closed:
  "convertDoppler2Canonical K d T =
     [LAL_TWOPI K * T * fkdot d ! 0,
      - ((LAL_TWOPI K * LAL_AU_SI K / LAL_C_SI K) * fkdot d ! 0) * vx (vn d),
      - ((LAL_TWOPI K * LAL_AU_SI K / LAL_C_SI K) * fkdot d ! 0) * vy (vn d),
      LAL_TWOPI K * T * T * fkdot d ! 1,
      LAL_TWOPI K * T * T * T * fkdot d ! 2,
      LAL_TWOPI K * T * T * T * T * fkdot d ! 3]"
  by (simp add: convertDoppler2Canonical_def convertSpins2Canonical_def PULSAR_MAX_SPINS_def
      Let_def upt_rec numeral_eq_Suc)

text \<open>
  C7, as the code has it. \<open>convertDoppler2Canonical\<close> produces a vector of length
  \<open>2 + PULSAR_MAX_SPINS\<close>, whatever the active spin dimension of the scan, with
  \<open>w\<^sub>0 = 2 pi T f\<^sub>0\<close> in slot 0, \<open>kX = - (2 pi R / c) f\<^sub>0 vn[0]\<close> in slot 1,
  \<open>kY = - (2 pi R / c) f\<^sub>0 vn[1]\<close> in slot 2 and \<open>w\<^sub>s = 2 pi T\<^bsup>s+1\<^esup> f\<^sub>s\<close> in slot
  \<open>2 + s\<close> for \<open>1 \<le> s < PULSAR_MAX_SPINS\<close>.
\<close>

theorem canonical_vector_layout:
  "length (convertDoppler2Canonical K d T) = 2 + PULSAR_MAX_SPINS \<and>
   convertDoppler2Canonical K d T ! 0 = LAL_TWOPI K * T ^ (0 + 1) * fkdot d ! 0 \<and>
   convertDoppler2Canonical K d T ! 1 = - (LAL_TWOPI K * LAL_AU_SI K / LAL_C_SI K) * fkdot d ! 0 * vx (vn d) \<and>
   convertDoppler2Canonical K d T ! 2 = - (LAL_TWOPI K * LAL_AU_SI K / LAL_C_SI K) * fkdot d ! 0 * vy (vn d) \<and>
   (\<forall>s. 1 \<le> s \<and> s < PULSAR_MAX_SPINS \<longrightarrow>
      convertDoppler2Canonical K d T ! (2 + s) = LAL_TWOPI K * T ^ (s + 1) * fkdot d ! s)"
proof -
  have spin: "convertDoppler2Canonical K d T ! (2 + s) = LAL_TWOPI K * T ^ (s + 1) * fkdot d ! s"
    if "1 \<le> s \<and> s < PULSAR_MAX_SPINS" for s
  proof -
    from that have "s = 1 \<or> s = 2 \<or> s = 3"
      unfolding PULSAR_MAX_SPINS_def by arith
    then consider "s = 1" | "s = 2" | "s = 3" by blast
    then show ?thesis
      by cases (simp_all add: D2C_closed power2_eq_square power3_eq_cube power4_eq_xxxx)
  qed
  show ?thesis
    using spin by (simp add: D2C_closed PULSAR_MAX_SPINS_def)
qed

theorem canonical_vector_layout_witness:
  "length (convertDoppler2Canonical LAL_K \<lparr> vn = (3 / 5, 0, 4 / 5), fkdot = [100, 2, 3, 5] \<rparr> 10) = 6 \<and>
   convertDoppler2Canonical LAL_K \<lparr> vn = (3 / 5, 0, 4 / 5), fkdot = [100, 2, 3, 5] \<rparr> 10 ! 3
     = LAL_TWOPI LAL_K * 10 ^ 2 * 2 \<and>
   convertDoppler2Canonical LAL_K \<lparr> vn = (3 / 5, 0, 4 / 5), fkdot = [100, 2, 3, 5] \<rparr> 10 ! 5
     = LAL_TWOPI LAL_K * 10 ^ 4 * 5"
proof -
  note layout = canonical_vector_layout
    [of LAL_K "\<lparr> vn = (3 / 5, 0, 4 / 5), fkdot = [100, 2, 3, 5] \<rparr>" 10]
  from layout have spins:
    "1 \<le> s \<and> s < PULSAR_MAX_SPINS \<longrightarrow>
       convertDoppler2Canonical LAL_K \<lparr> vn = (3 / 5, 0, 4 / 5), fkdot = [100, 2, 3, 5] \<rparr> 10 ! (2 + s)
         = LAL_TWOPI LAL_K * 10 ^ (s + 1) * fkdot \<lparr> vn = (3 / 5, 0, 4 / 5), fkdot = [100, 2, 3, 5] \<rparr> ! s"
    for s by blast
  from layout have "length (convertDoppler2Canonical LAL_K \<lparr> vn = (3 / 5, 0, 4 / 5), fkdot = [100, 2, 3, 5] \<rparr> 10) = 6"
    by (simp add: PULSAR_MAX_SPINS_def)
  then show ?thesis
    using spins [of 1] spins [of 3] by (simp add: PULSAR_MAX_SPINS_def)
qed

lemma active_spins_zero: "active_spins [0, 0, 0, 0] 4 = 1"
proof -
  have "active_spins [0, 0, 0, 0] 4 = active_spins [0, 0, 0, 0] 3"
    by (subst active_spins.simps) simp
  also have "\<dots> = active_spins [0, 0, 0, 0] 2"
    by (subst active_spins.simps) simp
  also have "\<dots> = active_spins [0, 0, 0, 0] 1"
    by (subst active_spins.simps) simp
  also have "\<dots> = 1"
    by (subst active_spins.simps) simp
  finally show ?thesis .
qed

lemma active_spins_zero_Suc: "active_spins [0, 0, 0, 0] (Suc (Suc (Suc (Suc 0)))) = Suc 0"
  using active_spins_zero by (simp add: numeral_eq_Suc)

text \<open>
  C7 as the specification states it fails: the length is not \<open>2 + s*\<close>. For a region
  whose spin bands are all zero the set-up gives the search dimension 3 and a lattice
  origin of length 6.
\<close>

theorem origin_longer_than_search_dimension:
  "setupSearchRegion LAL_K (idle_scan 1000000) [(3 / 5, 0, 4 / 5)]
     \<lparr> region_refTime = 0, region_fkdot = [100, 0, 0, 0], region_fkdotBand = [0, 0, 0, 0] \<rparr>
   = Some (Inr (point_scan\<lparr> state := STATE_IDLE, latticeGenerator := [], index := [] \<rparr>)) \<and>
   dimSearch point_scan = 3 \<and>
   length (latticeOrigin point_scan) = 6"
  by (simp add: setupSearchRegion_def onWhichHemisphere_def VECT_HEMI_def vz_def vx_def vy_def
      findCenterOfMass_def Let_def PULSAR_MAX_SPINS_def active_spins_zero_Suc upt_rec numeral_eq_Suc
      D2C_closed idle_scan_def point_scan_def point_boundary_def point_doppler_def)

subsection \<open>Canonical coordinates to Doppler parameters\<close>











subsection \<open>There and back\<close>




subsection \<open>The hemisphere of a list of sky points\<close>

lemma hemisphere_loop_flat:
  "\<forall>p \<in> set pts. vz p = 0 \<Longrightarrow> hemisphere_loop h pts = h"
  by (induction pts arbitrary: h) (auto simp: VECT_HEMI_def Let_def)

text \<open>
  C10. For a non-empty list of sky points whose third components are all zero,
  \<open>onWhichHemisphere\<close> returns \<open>HEMI_BOTH\<close> and \<open>setupSearchRegion\<close> therefore
  aborts with \<open>DOPPLERSCANH_EINPUT\<close>, although no two of the points lie on opposite
  hemispheres; the same holds for the empty list.
\<close>

theorem flat_polygon_rejected:
  "(pts \<noteq> [] \<and> (\<forall>p \<in> set pts. vz p = 0) \<longrightarrow>
      onWhichHemisphere pts = HEMI_BOTH \<and>
      setupSearchRegion K scan pts region = Some (Inl DOPPLERSCANH_EINPUT)) \<and>
   onWhichHemisphere [] = HEMI_BOTH \<and>
   setupSearchRegion K scan [] region = Some (Inl DOPPLERSCANH_EINPUT)"
  by (auto simp: onWhichHemisphere_def setupSearchRegion_def hemisphere_loop_flat Let_def)

theorem flat_polygon_rejected_witness:
  "onWhichHemisphere [(1, 0, 0), (0, 1, 0), (- 1, 0, 0)] = HEMI_BOTH \<and>
   setupSearchRegion LAL_K
     \<lparr> state = STATE_IDLE, Tspan = 1000000, dimSearch = 0,
       boundary = \<lparr> skyRegion = [], hemisphere = HEMI_BOTH,
                    fkRange = \<lparr> refTime = 0, range_fkdot = [0, 0, 0, 0], fkdotBand = [0, 0, 0, 0] \<rparr> \<rparr>,
       latticeOrigin = [], latticeGenerator = [], index = [] \<rparr>
     [(1, 0, 0), (0, 1, 0), (- 1, 0, 0)]
     \<lparr> region_refTime = 0, region_fkdot = [100, 0, 0, 0], region_fkdotBand = [0, 0, 0, 0] \<rparr>
   = Some (Inl DOPPLERSCANH_EINPUT)"
  using flat_polygon_rejected [of "[(1, 0, 0), (0, 1, 0), (- 1, 0, 0)]" LAL_K
     "\<lparr> state = STATE_IDLE, Tspan = 1000000, dimSearch = 0,
       boundary = \<lparr> skyRegion = [], hemisphere = HEMI_BOTH,
                    fkRange = \<lparr> refTime = 0, range_fkdot = [0, 0, 0, 0], fkdotBand = [0, 0, 0, 0] \<rparr> \<rparr>,
       latticeOrigin = [], latticeGenerator = [], index = [] \<rparr>"
     "\<lparr> region_refTime = 0, region_fkdot = [100, 0, 0, 0], region_fkdotBand = [0, 0, 0, 0] \<rparr>"]
  by (simp add: vz_def)

subsection \<open>What a call of the stepping function can return\<close>

lemma set_index_cases:
  "XLALsetCurrentLatticeIndex scan idx = Some (c, scan') \<Longrightarrow>
     (c = - 1 \<and> scan' = scan) \<or> (c = 0 \<and> scan' = scan\<lparr> index := idx \<rparr>)"
  by (auto simp: XLALsetCurrentLatticeIndex_def split: if_splits)

lemma install_index_cases:
  "install_index scan idx aI = Some (r, a, scan') \<Longrightarrow>
     a = aI \<and> ((r = - 1 \<and> scan' = scan) \<or> (r = 0 \<and> scan' = scan\<lparr> index := idx \<rparr>))"
  by (auto simp: install_index_def split: option.splits dest!: set_index_cases)

lemma advance_loop_step:
  assumes "advance_loop K scan dimS index0 aI = Some (r, a, scan')"
  shows "aI < dimS \<and>
     ((\<exists>idx. install_index scan idx aI = Some (r, a, scan')) \<or>
      (aI + 1 < dimS \<and> advance_loop K scan dimS (index0[aI := 0]) (aI + 1) = Some (r, a, scan')) \<or>
      (aI + 1 = dimS \<and> r = 0 \<and> a = aI + 1 \<and> scan' = scan))"
  using assms
  by (subst (asm) advance_loop.simps)
     (auto simp: Let_def split: if_splits option.splits)

lemma advance_loop_result:
  "advance_loop K scan dimS index0 aI = Some (r, a, scan') \<Longrightarrow>
     (a = dimS \<and> r = 0 \<and> scan' = scan) \<or>
     (a < dimS \<and> (r = 0 \<or> r = - 1) \<and> state scan' = state scan)"
proof (induction "dimS - aI" arbitrary: index0 aI)
  case 0
  then show ?case using advance_loop_step [of K scan dimS index0 aI r a scan'] by simp
next
  case (Suc n)
  from advance_loop_step [OF Suc.prems] have lt: "aI < dimS"
    and cases: "(\<exists>idx. install_index scan idx aI = Some (r, a, scan')) \<or>
      (aI + 1 < dimS \<and> advance_loop K scan dimS (index0[aI := 0]) (aI + 1) = Some (r, a, scan')) \<or>
      (aI + 1 = dimS \<and> r = 0 \<and> a = aI + 1 \<and> scan' = scan)"
    by simp_all
  from cases show ?case
  proof (elim disjE exE conjE)
    fix idx
    assume "install_index scan idx aI = Some (r, a, scan')"
    from install_index_cases [OF this] lt show ?thesis by auto
  next
    assume "aI + 1 < dimS"
      and rec: "advance_loop K scan dimS (index0[aI := 0]) (aI + 1) = Some (r, a, scan')"
    have "n = dimS - (aI + 1)" using Suc.hyps(2) by simp
    from Suc.hyps(1) [OF this rec] show ?thesis .
  next
    assume "aI + 1 = dimS" "r = 0" "a = aI + 1" "scan' = scan"
    then show ?thesis by simp
  qed
qed

lemma advance_ret_cases:
  assumes "XLALadvanceLatticeIndex K scan = Some (r, scan')"
  shows "state scan' = state scan \<and>
         ((r = 1 \<and> scan' = scan \<and> state scan = STATE_READY) \<or>
          (r = 0 \<and> state scan = STATE_READY) \<or>
          r = - 1)"
proof (cases "state scan = STATE_READY")
  case False
  with assms show ?thesis by (simp add: XLALadvanceLatticeIndex_def)
next
  case True
  show ?thesis
  proof (cases "XLALgetCurrentLatticeIndex None scan")
    case None
    with assms True show ?thesis by (simp add: XLALadvanceLatticeIndex_def)
  next
    case (Some g)
    show ?thesis
    proof (cases g)
      case (Inl e)
      with assms True Some show ?thesis by (simp add: XLALadvanceLatticeIndex_def)
    next
      case (Inr index0)
      from assms True Some Inr obtain ret0 aI s' where
        loop: "advance_loop K scan (dimSearch scan) index0 0 = Some (ret0, aI, s')"
        by (auto simp: XLALadvanceLatticeIndex_def Let_def split: option.splits)
      from advance_loop_result [OF loop] assms True Some Inr loop
      show ?thesis
        by (auto simp: XLALadvanceLatticeIndex_def Let_def split: if_splits)
    qed
  qed
qed

subsection \<open>The stepping function on a region of one point\<close>

text \<open>
  On \<open>point_scan\<close> each of the six neighbours of the origin along the axes is outside
  the boundary, and the stepping function reports that no lattice points are left.
\<close>

lemmas scan_eval =
  isIndexInsideBoundary_def XLALindexToDoppler_def indexToCanonicalOffset_def size1_def size2_def
  gsl_vector_add_def D2C_closed convertCanonical2Doppler_def isDopplerInsideBoundary_def
  spin_outside_def vect2DInPolygon_single VECT_HEMI_def vx_def vy_def vz_def
  Let_def PULSAR_MAX_SPINS_def upt_rec numeral_eq_Suc LAL_K_def EPS_REAL8_def gsl_fcmp_eval

lemma point_scan_fields:
  "state point_scan = STATE_READY" "dimSearch point_scan = 3" "index point_scan = [0, 0, 0]"
  by (simp_all add: point_scan_def)

lemma point_scan_trials:
  "isIndexInsideBoundary LAL_K [1, 0, 0] point_scan = Some 0"
  "isIndexInsideBoundary LAL_K [- 1, 0, 0] point_scan = Some 0"
  "isIndexInsideBoundary LAL_K [0, 1, 0] point_scan = Some 0"
  "isIndexInsideBoundary LAL_K [0, - 1, 0] point_scan = Some 0"
  "isIndexInsideBoundary LAL_K [0, 0, 1] point_scan = Some 0"
  "isIndexInsideBoundary LAL_K [0, 0, - 1] point_scan = Some 0"
  by (simp_all add: point_scan_def point_boundary_def point_doppler_def scan_eval)

lemma point_scan_origin:
  "isIndexInsideBoundary LAL_K [0, 0, 0] point_scan = Some 1"
  by (simp add: point_scan_def point_boundary_def point_doppler_def scan_eval)

lemma loop2: "advance_loop LAL_K point_scan 3 [0, 0, 0] (Suc (Suc 0)) = Some (0, 3, point_scan)"
  by (subst advance_loop.simps)
     (simp add: point_scan_trials INT_MIN_def INT_MAX_def Let_def)

lemma loop1: "advance_loop LAL_K point_scan 3 [0, 0, 0] (Suc 0) = Some (0, 3, point_scan)"
  by (subst advance_loop.simps)
     (simp add: point_scan_trials INT_MIN_def INT_MAX_def Let_def loop2)

lemma loop0: "advance_loop LAL_K point_scan 3 [0, 0, 0] 0 = Some (0, 3, point_scan)"
  by (subst advance_loop.simps)
     (simp add: point_scan_trials INT_MIN_def INT_MAX_def Let_def loop1)

lemma point_scan_exhausted:
  "XLALadvanceLatticeIndex LAL_K point_scan = Some (1, point_scan)"
  by (simp add: XLALadvanceLatticeIndex_def XLALgetCurrentLatticeIndex_def point_scan_fields
      loop0 Let_def)

subsection \<open>The stepping function on a region next to the rim of the unit disk\<close>

text \<open>
  On \<open>edge_scan\<close> the origin is inside the boundary, and the first trial index
  \<open>(1, 0, 0)\<close> has a sky projection longer than 1: the transform fails and
  \<open>isIndexInsideBoundary\<close> returns -1. The stepping function tests that value for
  truth, installs the index and returns 0.
\<close>

lemma edge_scan_fields:
  "state edge_scan = STATE_READY" "dimSearch edge_scan = 3" "index edge_scan = [0, 0, 0]"
  by (simp_all add: edge_scan_def)

lemma edge_scan_transform_fails:
  "XLALindexToDoppler LAL_K [1, 0, 0] edge_scan = Some (Inl (- 1))"
  by (simp add: edge_scan_def scan_eval)

lemma edge_scan_trial:
  "isIndexInsideBoundary LAL_K [1, 0, 0] edge_scan = Some (- 1)"
  by (simp add: isIndexInsideBoundary_def edge_scan_transform_fails edge_scan_fields)

lemma upt3: "[0..<3] = [0, 1, 2]"
  by (simp add: upt_rec)

lemma edge_scan_origin_doppler:
  "XLALindexToDoppler LAL_K [0, 0, 0] edge_scan =
     Some (Inr \<lparr> vn = (5999959 / 6000000, 0, sqrt (1 - (5999959 / 6000000) * (5999959 / 6000000))),
                  fkdot = [100, 0, 0, 0] \<rparr>)"
  by (simp add: edge_scan_def scan_eval)

lemma edge_scan_origin_inside:
  "isIndexInsideBoundary LAL_K [0, 0, 0] edge_scan = Some 1"
proof -
  let ?d = "\<lparr> vn = (5999959 / 6000000, 0, sqrt (1 - (5999959 / 6000000) * (5999959 / 6000000))),
             fkdot = [100, 0, 0, 0] \<rparr>"
  have sky: "vect2DInPolygon (vx (vn ?d), vy (vn ?d)) (skyRegion (boundary edge_scan)) = 1"
    by (simp add: edge_scan_def vx_def vy_def vect2DInPolygon_def upt3 polygon_edge_def Let_def)
  have "0 < sqrt (1 - (5999959 / 6000000) * (5999959 / 6000000 :: real))" by simp
  then have hemi: "VECT_HEMI (vn ?d) = hemisphere (boundary edge_scan)"
    by (simp add: edge_scan_def VECT_HEMI_def vz_def)
  have spins: "\<forall>s < PULSAR_MAX_SPINS. \<not> spin_outside ?d (boundary edge_scan) s"
    by (simp add: edge_scan_def spin_outside_def PULSAR_MAX_SPINS_def numeral_eq_Suc All_less_Suc
        EPS_REAL8_def gsl_fcmp_eval Let_def)
  have "isDopplerInsideBoundary ?d (boundary edge_scan) = 1"
    using sky hemi spins by (simp only: isDopplerInsideBoundary_iff) 
  then show ?thesis
    by (simp add: isIndexInsideBoundary_def edge_scan_origin_doppler edge_scan_fields)
qed

lemma edge_loop0:
  "advance_loop LAL_K edge_scan 3 [0, 0, 0] 0 = Some (0, 0, edge_scan\<lparr> index := [1, 0, 0] \<rparr>)"
  by (subst advance_loop.simps)
     (simp add: edge_scan_trial INT_MIN_def INT_MAX_def Let_def install_index_def
        XLALsetCurrentLatticeIndex_def edge_scan_fields)

lemma edge_scan_advance:
  "XLALadvanceLatticeIndex LAL_K edge_scan = Some (0, edge_scan\<lparr> index := [1, 0, 0] \<rparr>)"
  by (simp add: XLALadvanceLatticeIndex_def XLALgetCurrentLatticeIndex_def edge_scan_fields
      edge_loop0 Let_def)

subsection \<open>The state of the scan\<close>




subsection \<open>Exhaustion\<close>

text \<open>
  C9. When a call of \<open>XLALadvanceLatticeIndex\<close> on a scan in \<open>STATE_READY\<close> reports
  that no lattice points are left, the scan's current index is what it was before the
  call, and the next call on the same scan reports the same.
\<close>

theorem exhaustion_is_idempotent:
  assumes "state scan = STATE_READY"
    and "XLALadvanceLatticeIndex K scan = Some (1, scan')"
  shows "index scan' = index scan \<and> XLALadvanceLatticeIndex K scan' = Some (1, scan')"
  using advance_ret_cases [OF assms(2)] assms(2) by auto

theorem exhaustion_is_idempotent_witness:
  "state point_scan = STATE_READY \<and>
   XLALadvanceLatticeIndex LAL_K point_scan = Some (1, point_scan) \<and>
   index point_scan = [0, 0, 0]"
  using exhaustion_is_idempotent [of point_scan LAL_K point_scan] point_scan_exhausted
  by (simp add: point_scan_fields)

subsection \<open>The stepping function and the outward walk\<close>

text \<open>
  Whenever the walk of the specification does not meet a failing test, the stepping
  function does what the walk says: it installs the index the walk advances to and
  returns 0, or leaves the scan as it is and returns 1 when the walk is finished.
\<close>

lemma install_index_ok:
  "state scan = STATE_READY \<Longrightarrow> length (index scan) = dimSearch scan \<Longrightarrow>
   length idx = dimSearch scan \<Longrightarrow>
   install_index scan idx aI = Some (0, aI, scan\<lparr> index := idx \<rparr>)"
  by (simp add: install_index_def XLALsetCurrentLatticeIndex_def)

lemma inside_test_cases:
  "inside_test K scan idx = Some True \<longleftrightarrow> isIndexInsideBoundary K idx scan = Some 1"
  "inside_test K scan idx = Some False \<longleftrightarrow> isIndexInsideBoundary K idx scan = Some 0"
  by (auto simp: inside_test_def split: option.splits if_splits)

lemma outward_walk_end: "outward_walk inside D i D = Finished"
  by (subst outward_walk.simps) simp

lemma advance_loop_refines_walk:
  assumes rdy: "state scan = STATE_READY" and len: "length (index scan) = dimSearch scan"
  shows "aI < dimSearch scan \<Longrightarrow> length index0 = dimSearch scan \<Longrightarrow>
     \<forall>x \<in> set index0. INT_MIN < x \<and> x < INT_MAX \<Longrightarrow>
     (case outward_walk (inside_test K scan) (dimSearch scan) index0 aI of
        Advanced i' \<Rightarrow>
          (\<exists>a < dimSearch scan.
             advance_loop K scan (dimSearch scan) index0 aI = Some (0, a, scan\<lparr> index := i' \<rparr>))
      | Finished \<Rightarrow> advance_loop K scan (dimSearch scan) index0 aI = Some (0, dimSearch scan, scan)
      | WalkError \<Rightarrow> True)"
proof (induction "dimSearch scan - aI" arbitrary: aI index0)
  case 0
  then show ?case by simp
next
  case (Suc n)
  let ?D = "dimSearch scan"
  let ?x = "index0 ! aI"
  let ?up = "0 \<le> ?x"
  let ?stepped = "if ?up then ?x + 1 else ?x - 1"
  let ?t1 = "index0[aI := ?stepped]"
  let ?t2 = "index0[aI := - 1]"
  let ?next = "index0[aI := 0]"
  have xin: "?x \<in> set index0" using Suc.prems by simp
  then have range: "INT_MIN < ?x" "?x < INT_MAX" using Suc.prems by auto
  have zero_range: "INT_MIN < 0 \<and> (0::int) < INT_MAX" by (simp add: INT_MIN_def INT_MAX_def)
  have next_range: "\<forall>x \<in> set ?next. INT_MIN < x \<and> x < INT_MAX"
    using Suc.prems(3) zero_range by (auto dest!: set_update_subset_insert [THEN subsetD])
  have rest: "(case outward_walk (inside_test K scan) ?D ?next (aI + 1) of
        Advanced i' \<Rightarrow>
          (\<exists>a < ?D. (if aI + 1 < ?D then advance_loop K scan ?D ?next (aI + 1)
                       else Some (0, aI + 1, scan)) = Some (0, a, scan\<lparr> index := i' \<rparr>))
      | Finished \<Rightarrow> (if aI + 1 < ?D then advance_loop K scan ?D ?next (aI + 1)
                       else Some (0, aI + 1, scan)) = Some (0, ?D, scan)
      | WalkError \<Rightarrow> True)"
  proof (cases "aI + 1 < ?D")
    case True
    have "n = ?D - (aI + 1)" using Suc.hyps(2) by simp
    from Suc.hyps(1) [OF this True _ next_range] Suc.prems(2) True
    show ?thesis by simp
  next
    case False
    then have "aI + 1 = ?D" using Suc.prems(1) by simp
    then show ?thesis using False by (simp add: outward_walk_end)
  qed
  have code: "advance_loop K scan ?D index0 aI =
      (case isIndexInsideBoundary K ?t1 scan of
         None \<Rightarrow> None
       | Some r \<Rightarrow>
           if r \<noteq> 0 then install_index scan ?t1 aI
           else if ?up then
             (case isIndexInsideBoundary K ?t2 scan of
                None \<Rightarrow> None
              | Some r2 \<Rightarrow>
                  if r2 \<noteq> 0 then install_index scan ?t2 aI
                  else if aI + 1 < ?D then advance_loop K scan ?D ?next (aI + 1)
                  else Some (0, aI + 1, scan))
           else if aI + 1 < ?D then advance_loop K scan ?D ?next (aI + 1)
           else Some (0, aI + 1, scan))"
    using Suc.prems(1) range
    by (subst advance_loop.simps) (auto simp: Let_def not_less split: option.splits)
  have walk: "outward_walk (inside_test K scan) ?D index0 aI =
      (case inside_test K scan ?t1 of
         None \<Rightarrow> WalkError
       | Some True \<Rightarrow> Advanced ?t1
       | Some False \<Rightarrow>
           (if ?up then
              (case inside_test K scan ?t2 of
                 None \<Rightarrow> WalkError
               | Some True \<Rightarrow> Advanced ?t2
               | Some False \<Rightarrow> outward_walk (inside_test K scan) ?D ?next (aI + 1))
            else outward_walk (inside_test K scan) ?D ?next (aI + 1)))"
    using Suc.prems(1)
    by (subst outward_walk.simps) (simp add: Let_def)
  have inst: "install_index scan (index0[aI := v]) aI = Some (0, aI, scan\<lparr> index := index0[aI := v] \<rparr>)" for v
    using rdy len Suc.prems(2) by (simp add: install_index_ok)
  show ?case
  proof (cases "inside_test K scan ?t1")
    case None
    then show ?thesis by (simp add: walk)
  next
    case (Some b1)
    show ?thesis
    proof (cases b1)
      case True
      with Some have "isIndexInsideBoundary K ?t1 scan = Some 1" by (simp add: inside_test_cases)
      with Some True Suc.prems(1) show ?thesis
        by (simp only: walk code inst) auto
    next
      case False
      with Some have r1: "isIndexInsideBoundary K ?t1 scan = Some 0" by (simp add: inside_test_cases)
      show ?thesis
      proof (cases ?up)
        case up: True
        show ?thesis
        proof (cases "inside_test K scan ?t2")
          case None
          with Some False up show ?thesis by (simp add: walk)
        next
          case (Some b2)
          show ?thesis
          proof (cases b2)
            case True
            with Some have "isIndexInsideBoundary K ?t2 scan = Some 1" by (simp add: inside_test_cases)
            with Some True \<open>inside_test K scan ?t1 = Some b1\<close> False up r1 Suc.prems(1) show ?thesis
              by (simp only: walk code inst) auto
          next
            case F2: False
            with Some have r2: "isIndexInsideBoundary K ?t2 scan = Some 0" by (simp add: inside_test_cases)
            have c: "advance_loop K scan ?D index0 aI =
                (if aI + 1 < ?D then advance_loop K scan ?D ?next (aI + 1) else Some (0, aI + 1, scan))"
              using r1 r2 up by (simp only: code) simp
            have w: "outward_walk (inside_test K scan) ?D index0 aI =
                outward_walk (inside_test K scan) ?D ?next (aI + 1)"
              using Some F2 \<open>inside_test K scan ?t1 = Some b1\<close> False up by (simp only: walk) simp
            show ?thesis unfolding c w by (rule rest)
          qed
        qed
      next
        case down: False
        have c: "advance_loop K scan ?D index0 aI =
            (if aI + 1 < ?D then advance_loop K scan ?D ?next (aI + 1) else Some (0, aI + 1, scan))"
          using r1 down by (simp only: code) simp
        have w: "outward_walk (inside_test K scan) ?D index0 aI =
            outward_walk (inside_test K scan) ?D ?next (aI + 1)"
          using Some False down by (simp only: walk) simp
        show ?thesis unfolding c w by (rule rest)
      qed
    qed
  qed
qed

lemma advance_refines_outward_walk:
  assumes rdy: "state scan = STATE_READY"
    and len: "length (index scan) = dimSearch scan"
    and pos: "0 < dimSearch scan"
    and range: "\<forall>x \<in> set (index scan). INT_MIN < x \<and> x < INT_MAX"
  shows "case outward_walk (inside_test K scan) (dimSearch scan) (index scan) 0 of
           Advanced i' \<Rightarrow> XLALadvanceLatticeIndex K scan = Some (0, scan\<lparr> index := i' \<rparr>)
         | Finished \<Rightarrow> XLALadvanceLatticeIndex K scan = Some (1, scan)
         | WalkError \<Rightarrow> True"
proof -
  have get: "XLALgetCurrentLatticeIndex None scan = Some (Inr (index scan))"
    using rdy len by (simp add: XLALgetCurrentLatticeIndex_def)
  note loop = advance_loop_refines_walk [OF rdy len pos len range, of K]
  show ?thesis
  proof (cases "outward_walk (inside_test K scan) (dimSearch scan) (index scan) 0")
    case (Advanced i')
    with loop obtain a where "a < dimSearch scan"
      "advance_loop K scan (dimSearch scan) (index scan) 0 = Some (0, a, scan\<lparr> index := i' \<rparr>)"
      by auto
    with Advanced rdy get show ?thesis
      by (simp add: XLALadvanceLatticeIndex_def Let_def)
  next
    case Finished
    with loop have "advance_loop K scan (dimSearch scan) (index scan) 0 = Some (0, dimSearch scan, scan)"
      by simp
    with Finished rdy get show ?thesis
      by (simp add: XLALadvanceLatticeIndex_def Let_def)
  next
    case WalkError
    then show ?thesis by simp
  qed
qed

lemma point_scan_walk:
  "outward_walk (inside_test LAL_K point_scan) (dimSearch point_scan) (index point_scan) 0 = Finished"
proof -
  have t: "inside_test LAL_K point_scan [1, 0, 0] = Some False"
    "inside_test LAL_K point_scan [- 1, 0, 0] = Some False"
    "inside_test LAL_K point_scan [0, 1, 0] = Some False"
    "inside_test LAL_K point_scan [0, - 1, 0] = Some False"
    "inside_test LAL_K point_scan [0, 0, 1] = Some False"
    "inside_test LAL_K point_scan [0, 0, - 1] = Some False"
    by (simp_all add: inside_test_def point_scan_trials)
  have 3: "outward_walk (inside_test LAL_K point_scan) 3 [0, 0, 0] (Suc (Suc (Suc 0))) = Finished"
    by (subst outward_walk.simps) simp
  have 2: "outward_walk (inside_test LAL_K point_scan) 3 [0, 0, 0] (Suc (Suc 0)) = Finished"
    by (subst outward_walk.simps) (simp add: t 3 Let_def)
  have 1: "outward_walk (inside_test LAL_K point_scan) 3 [0, 0, 0] (Suc 0) = Finished"
    by (subst outward_walk.simps) (simp add: t 2 Let_def)
  have "outward_walk (inside_test LAL_K point_scan) 3 [0, 0, 0] 0 = Finished"
    by (subst outward_walk.simps) (simp add: t 1 Let_def)
  then show ?thesis by (simp add: point_scan_fields)
qed

lemma advance_refines_outward_walk_instance:
  "XLALadvanceLatticeIndex LAL_K point_scan = Some (1, point_scan)"
  using advance_refines_outward_walk [of point_scan LAL_K] point_scan_walk
  by (simp add: point_scan_fields INT_MIN_def INT_MAX_def)

lemma edge_walk:
  "outward_walk (inside_test LAL_K edge_scan) 3 [0, 0, 0] 0 = WalkError"
  by (subst outward_walk.simps) (simp add: inside_test_def edge_scan_trial Let_def)

text \<open>
  C1, at \<open>edge_scan\<close>. The scan is in \<open>STATE_READY\<close> and stands on a point inside
  its boundary; the transform of the trial index \<open>(1, 0, 0)\<close> fails and the boundary
  test reports the error -1; yet the stepping function returns 0 and the stored index
  has changed from \<open>(0, 0, 0)\<close> to that trial index.
\<close>

theorem failed_transform_is_installed:
  "state edge_scan = STATE_READY \<and>
   isIndexInsideBoundary LAL_K (index edge_scan) edge_scan = Some 1 \<and>
   XLALindexToDoppler LAL_K [1, 0, 0] edge_scan = Some (Inl (- 1)) \<and>
   isIndexInsideBoundary LAL_K [1, 0, 0] edge_scan = Some (- 1) \<and>
   XLALadvanceLatticeIndex LAL_K edge_scan = Some (0, edge_scan\<lparr> index := [1, 0, 0] \<rparr>) \<and>
   index edge_scan = [0, 0, 0]"
  by (simp add: edge_scan_fields edge_scan_transform_fails edge_scan_trial edge_scan_advance
      edge_scan_origin_inside)

text \<open>
  C3, at \<open>edge_scan\<close>. The outward walk meets a failing test at its first trial index,
  which is therefore not a trial index inside the boundary; the stepping function
  accepts it as the new current index.
\<close>

theorem walk_accepts_failed_trial:
  "outward_walk (inside_test LAL_K edge_scan) (dimSearch edge_scan) (index edge_scan) 0 = WalkError \<and>
   inside_test LAL_K edge_scan [1, 0, 0] = None \<and>
   XLALadvanceLatticeIndex LAL_K edge_scan = Some (0, edge_scan\<lparr> index := [1, 0, 0] \<rparr>)"
  by (simp add: edge_scan_fields edge_walk edge_scan_advance inside_test_def edge_scan_trial)

end
